theory Spec2Isabelle
  imports Main "HOL-Library.Word"
begin

unbundle bit_operations_syntax

section \<open>Machine types\<close>

text \<open>
  The fixed-width integer types of \<^verbatim>\<open>common/common_types.h\<close>.  A signed integer is a
  word read with \<open>sint\<close>; a pointer (\<^verbatim>\<open>const u8*\<close>) is a 64-bit address.
\<close>

type_synonym u8 = "8 word"
type_synonym u16 = "16 word"
type_synonym s16 = "16 word"
type_synonym u32 = "32 word"
type_synonym s32 = "32 word"
type_synonym u64 = "64 word"
type_synonym addr = "64 word"

section \<open>Binary descriptors: \<^verbatim>\<open>GoalTexture\<close> and \<^verbatim>\<open>GoalTexturePage\<close>\<close>

subsection \<open>Member declarations and their layout\<close>

text \<open>
  The scalar member types the two descriptor structs use.  \<open>Seg\<close> is the nested
  \<^verbatim>\<open>GoalTexturePage::Seg\<close>, three \<^verbatim>\<open>u32\<close> members.
\<close>

datatype ctype = S16 | U8 | U16 | S32 | U32 | F32 | Seg

fun sizeof_ctype :: "ctype \<Rightarrow> nat" where
  "sizeof_ctype S16 = 2"
| "sizeof_ctype U8 = 1"
| "sizeof_ctype U16 = 2"
| "sizeof_ctype S32 = 4"
| "sizeof_ctype U32 = 4"
| "sizeof_ctype F32 = 4"
| "sizeof_ctype Seg = 12"

fun alignof_ctype :: "ctype \<Rightarrow> nat" where
  "alignof_ctype Seg = 4"
| "alignof_ctype t = sizeof_ctype t"

text \<open>
  A member declaration: its name, its element type and its element count (1 for a
  scalar, \<open>n\<close> for an array \<^verbatim>\<open>t name[n]\<close>).
\<close>

type_synonym member = "string \<times> ctype \<times> nat"

text \<open>The members of \<^verbatim>\<open>struct GoalTexture\<close>, in declaration order.\<close>

definition GoalTexture_members :: "member list" where
  "GoalTexture_members =
     [(''w'', S16, 1),
      (''h'', S16, 1),
      (''num_mips'', U8, 1),
      (''tex1_control'', U8, 1),
      (''psm'', U8, 1),
      (''mip_shift'', U8, 1),
      (''clutpsm'', U16, 1),
      (''dest'', U16, 7),
      (''clut_dest'', U16, 1),
      (''width'', U8, 7),
      (''name_ptr'', U32, 1),
      (''size'', U32, 1),
      (''uv_dist'', F32, 1),
      (''masks'', U32, 3)]"

text \<open>
  The data members of \<^verbatim>\<open>struct GoalTexturePage\<close>, in declaration order; the array of
  texture pointers starts right after them.
\<close>

definition GoalTexturePage_members :: "member list" where
  "GoalTexturePage_members =
     [(''file_info_ptr'', U32, 1),
      (''name_ptr'', U32, 1),
      (''id'', U32, 1),
      (''length'', S32, 1),
      (''mip0_size'', U32, 1),
      (''size'', U32, 1),
      (''segment'', Seg, 3),
      (''pad'', U32, 16)]"

text \<open>
  The layout rule of the C++ ABIs the port is built for: members are placed in
  declaration order, each at the next multiple of its alignment, and the size of the
  struct is the end of the last member rounded up to the largest member alignment.
\<close>

definition align_up :: "nat \<Rightarrow> nat \<Rightarrow> nat" where
  "align_up n a = ((n + a - 1) div a) * a"

fun member_offsets :: "nat \<Rightarrow> member list \<Rightarrow> (string \<times> nat) list" where
  "member_offsets off [] = []"
| "member_offsets off ((nm, t, cnt) # ms) =
     (let at = align_up off (alignof_ctype t)
      in (nm, at) # member_offsets (at + sizeof_ctype t * cnt) ms)"

fun members_end :: "nat \<Rightarrow> member list \<Rightarrow> nat" where
  "members_end off [] = off"
| "members_end off ((nm, t, cnt) # ms) =
     members_end (align_up off (alignof_ctype t) + sizeof_ctype t * cnt) ms"

definition struct_align :: "member list \<Rightarrow> nat" where
  "struct_align ms = fold max (map (\<lambda>(nm, t, cnt). alignof_ctype t) ms) 1"

definition sizeof_struct :: "member list \<Rightarrow> nat" where
  "sizeof_struct ms = align_up (members_end 0 ms) (struct_align ms)"

definition offsetof :: "member list \<Rightarrow> string \<Rightarrow> nat option" where
  "offsetof ms nm = map_of (member_offsets 0 ms) nm"

definition sizeof_GoalTexture :: nat where
  "sizeof_GoalTexture = sizeof_struct GoalTexture_members"

definition sizeof_GoalTexturePage :: nat where
  "sizeof_GoalTexturePage = sizeof_struct GoalTexturePage_members"

text \<open>
  The three \<^verbatim>\<open>static_assert\<close> declarations that follow \<^verbatim>\<open>struct GoalTexture\<close>.  Their
  operands are constant expressions: no argument of any function occurs in them.
\<close>

definition GoalTexture_static_asserts :: bool where
  "GoalTexture_static_asserts \<longleftrightarrow>
     sizeof_GoalTexture = 60 \<and>
     offsetof GoalTexture_members ''clutpsm'' = Some 8 \<and>
     offsetof GoalTexture_members ''clut_dest'' = Some 24"

subsection \<open>The texture descriptor and its mip segments\<close>

text \<open>
  \<^verbatim>\<open>struct GoalTexture\<close>.  The fields carry the prefix \<open>gt_\<close> because \<open>w\<close>, \<open>h\<close> and
  \<open>size\<close> are also names of other structs and of HOL.  \<open>gt_uv_dist\<close> holds the bits of
  the \<^verbatim>\<open>float\<close>.
\<close>

record GoalTexture =
  gt_w :: s16
  gt_h :: s16
  gt_num_mips :: u8
  gt_tex1_control :: u8
  gt_psm :: u8
  gt_mip_shift :: u8
  gt_clutpsm :: u16
  gt_dest :: "u16 list"
  gt_clut_dest :: u16
  gt_width :: "u8 list"
  gt_name_ptr :: u32
  gt_size :: u32
  gt_uv_dist :: u32
  gt_masks :: "u32 list"

text \<open>
  \<^verbatim>\<open>GoalTexture::segment_of_mip\<close>.  \<^verbatim>\<open>num_mips\<close> is promoted from \<^verbatim>\<open>u8\<close> to \<^verbatim>\<open>int\<close>
  (\<open>ucast\<close>); the subtraction is 32-bit, and \<^verbatim>\<open>std::max\<close> compares signed values.
\<close>

definition smax32 :: "s32 \<Rightarrow> s32 \<Rightarrow> s32" where
  "smax32 a b = (if sint a < sint b then b else a)"

definition segment_of_mip :: "GoalTexture \<Rightarrow> s32 \<Rightarrow> s32" where
  "segment_of_mip tex mip =
     (if sint (ucast (gt_num_mips tex) :: s32) \<le> 2
      then ucast (gt_num_mips tex) - mip - 1
      else smax32 0 (2 - mip))"

text \<open>A descriptor with a given mip count, every other field zero.\<close>

definition texture_with_mips :: "u8 \<Rightarrow> GoalTexture" where
  "texture_with_mips n =
     \<lparr>gt_w = 0, gt_h = 0, gt_num_mips = n, gt_tex1_control = 0, gt_psm = 0,
      gt_mip_shift = 0, gt_clutpsm = 0, gt_dest = replicate 7 0, gt_clut_dest = 0,
      gt_width = replicate 7 0, gt_name_ptr = 0, gt_size = 0, gt_uv_dist = 0,
      gt_masks = replicate 3 0\<rparr>"

subsection \<open>Reading a descriptor out of game memory\<close>

text \<open>
  The simulated game memory is a map from addresses to bytes.  \<^verbatim>\<open>memcpy\<close> from memory
  reads consecutive bytes; a \<^verbatim>\<open>u32\<close> is assembled from four of them, least significant
  byte first (the port runs on little-endian machines).
\<close>

type_synonym memory = "addr \<Rightarrow> u8"

definition read_bytes :: "memory \<Rightarrow> addr \<Rightarrow> nat \<Rightarrow> u8 list" where
  "read_bytes mem a n = map (\<lambda>i. mem (a + of_nat i)) [0..<n]"

definition load_u32 :: "memory \<Rightarrow> addr \<Rightarrow> u32" where
  "load_u32 mem a =
     ucast (mem a) OR push_bit 8 (ucast (mem (a + 1))) OR
     push_bit 16 (ucast (mem (a + 2))) OR push_bit 24 (ucast (mem (a + 3)))"

text \<open>
  The first \<^verbatim>\<open>memcpy\<close> of \<^verbatim>\<open>try_copy_texture_description\<close>: the pointer stored at index
  \<open>idx\<close> of the array that follows the page header.  \<^verbatim>\<open>4 * idx\<close> is an \<^verbatim>\<open>int\<close>
  product, sign-extended when it is added to the pointer.
\<close>

definition texture_ptr :: "memory \<Rightarrow> addr \<Rightarrow> s32 \<Rightarrow> u32" where
  "texture_ptr mem tpage idx =
     load_u32 mem (tpage + of_nat sizeof_GoalTexturePage + scast (4 * idx))"

text \<open>
  \<^verbatim>\<open>GoalTexturePage::try_copy_texture_description\<close>.  The output record \<^verbatim>\<open>*dest\<close> is
  modelled by its object representation, the bytes \<^verbatim>\<open>memcpy\<close> writes; the function
  returns the record after the call together with its \<^verbatim>\<open>bool\<close> result.
\<close>

definition try_copy_texture_description ::
  "memory \<Rightarrow> u8 list \<Rightarrow> s32 \<Rightarrow> addr \<Rightarrow> addr \<Rightarrow> u32 \<Rightarrow> u8 list \<times> bool" where
  "try_copy_texture_description mem dest idx memory_base tpage s7_ptr =
     (let ptr = texture_ptr mem tpage idx
      in if ptr = s7_ptr then (dest, False)
         else (read_bytes mem (memory_base + ucast ptr) sizeof_GoalTexture, True))"

text \<open>
  A small page image: the pointer array, right after the 124-byte header at address 0,
  holds the pointers \<open>7\<close> (entry 0) and \<open>16\<close> (entry 1); every other byte is zero
  except the one at address \<open>0x110\<close>.
\<close>

definition example_memory :: memory where
  "example_memory = (\<lambda>a. 0)(124 := 7, 128 := 16, 272 := 42)"

section \<open>The texture pool\<close>

subsection \<open>Data\<close>

text \<open>\<^verbatim>\<open>struct TextureData\<close>: the OpenGL texture ID and the address of the pixel data.\<close>

record TextureData =
  gl :: u64
  data :: addr

text \<open>
  \<^verbatim>\<open>struct GpuTexture\<close>, a unique in-game texture with its loaded instances and the
  VRAM addresses that contain it.
\<close>

record GpuTexture =
  page_name :: string
  name :: string
  gpu_textures :: "TextureData list"
  slots :: "u32 list"
  mt4hh_slots :: "u32 list"
  combo_id :: u32
  w :: u16
  h :: u16
  is_placeholder :: bool
  is_common :: bool

text \<open>
  \<^verbatim>\<open>struct TextureVRAMReference\<close>, a VRAM slot.  \<^verbatim>\<open>source\<close> points into the values of
  \<^verbatim>\<open>m_loaded_textures\<close>; such a pointer is modelled by the key of the entry it points to,
  \<^verbatim>\<open>nullptr\<close> by \<open>None\<close>.
\<close>

record TextureVRAMReference =
  gpu_texture :: u64
  source :: "string option"

text \<open>The default member initialisers: \<^verbatim>\<open>gpu_texture = -1\<close>, \<^verbatim>\<open>source = nullptr\<close>.\<close>

definition TextureVRAMReference_default :: TextureVRAMReference where
  "TextureVRAMReference_default = \<lparr>gpu_texture = - 1, source = None\<rparr>"

text \<open>\<^verbatim>\<open>struct TextureInput\<close>, a texture provided by the loader (fields prefixed \<open>in_\<close>).\<close>

record TextureInput =
  in_page_name :: string
  in_name :: string
  in_gpu_texture :: u64
  in_common :: bool
  in_combo_id :: u32
  in_src_data :: addr
  in_w :: u16
  in_h :: u16

text \<open>\<^verbatim>\<open>struct TexturePool::Mt4hhTexture\<close>, an entry of the side table for the mt4hh format.\<close>

record Mt4hhTexture =
  ref :: TextureVRAMReference
  slot :: u32

text \<open>
  The data members of \<^verbatim>\<open>class TexturePool\<close> that hold textures.  \<^verbatim>\<open>m_textures\<close> is a
  \<^verbatim>\<open>std::array\<close> of \<open>VRAM_SLOTS\<close> entries indexed by a \<^verbatim>\<open>u32\<close>; it is modelled by a
  function on \<^verbatim>\<open>u32\<close>, of which only the arguments below \<open>VRAM_SLOTS\<close> are entries of
  the array (the array's \<^verbatim>\<open>operator[]\<close> does not check its index).
  \<^verbatim>\<open>m_loaded_textures\<close> is the \<^verbatim>\<open>unordered_map\<close> from names to textures.
\<close>

definition VRAM_SLOTS :: nat where
  "VRAM_SLOTS = 1024 * 1024 * 4 div 256"

record TexturePool =
  m_textures :: "u32 \<Rightarrow> TextureVRAMReference"
  m_mt4hh_textures :: "Mt4hhTexture list"
  m_placeholder_texture_id :: u64
  m_loaded_textures :: "string \<rightharpoonup> GpuTexture"

text \<open>
  The pool as its default member initialisers leave it: every slot default-constructed,
  no side-table entry, \<^verbatim>\<open>m_placeholder_texture_id = 0\<close>, no loaded texture.  (The body of
  the constructor is not part of the header.)
\<close>

definition TexturePool_default :: TexturePool where
  "TexturePool_default =
     \<lparr>m_textures = (\<lambda>location. TextureVRAMReference_default),
      m_mt4hh_textures = [],
      m_placeholder_texture_id = 0,
      m_loaded_textures = Map.empty\<rparr>"

subsection \<open>Lookups\<close>

text \<open>
  \<^verbatim>\<open>TexturePool::lookup\<close>.  \<^verbatim>\<open>EXTRA_TEX_DEBUG\<close> is \<^verbatim>\<open>false\<close>, so the statement under
  \<^verbatim>\<open>if constexpr (EXTRA_TEX_DEBUG)\<close> is discarded when the function is compiled.
\<close>

definition lookup :: "TexturePool \<Rightarrow> u32 \<Rightarrow> u64 option" where
  "lookup p location =
     (let t = m_textures p location
      in case source t of
           Some src \<Rightarrow> Some (gpu_texture t)
         | None \<Rightarrow> None)"

text \<open>\<^verbatim>\<open>TexturePool::lookup_gpu_texture\<close>.\<close>

definition lookup_gpu_texture :: "TexturePool \<Rightarrow> u32 \<Rightarrow> string option" where
  "lookup_gpu_texture p location = source (m_textures p location)"

text \<open>\<^verbatim>\<open>TexturePool::get_placeholder_texture\<close>.\<close>

definition get_placeholder_texture :: "TexturePool \<Rightarrow> u64" where
  "get_placeholder_texture p = m_placeholder_texture_id p"

definition example_written_pool :: TexturePool where
  "example_written_pool =
     TexturePool_default
       \<lparr>m_textures := (m_textures TexturePool_default)
          (5 := \<lparr>gpu_texture = 17, source = Some ''a''\<rparr>)\<rparr>"

subsection \<open>Uploading the textures of a page\<close>

text \<open>
  The texture count of a page: the member \<^verbatim>\<open>length\<close> of the \<^verbatim>\<open>GoalTexturePage\<close> header
  found at \<^verbatim>\<open>tpage\<close>, the fourth 4-byte member, at byte offset 12.
\<close>

definition page_length :: "memory \<Rightarrow> addr \<Rightarrow> s32" where
  "page_length mem tpage = load_u32 mem (tpage + 12)"

text \<open>
  Modelled from the spec: the descriptor loop of \<^verbatim>\<open>TexturePool::handle_upload_now\<close>
  (simulate_upload), which the header declares without a body.  ``Decodes one texture
  descriptor (mode = single) or a full page of descriptors (mode = page) from
  \<^verbatim>\<open>memory_base\<close> using the Binary Descriptor Decoder; a pointer field equal to
  \<^verbatim>\<open>empty_sentinel\<close> marks `no descriptor here' and is skipped.  For each resolved
  descriptor: compute destination slot address(es) from the descriptor's segment/mip
  table; resolve the target identity by name via get-or-create; write the resolved handle
  into every destination slot.''  The loop calls the decoder for each index in turn, hands
  a decoded record to \<open>upload_texture\<close> and goes on to the next index when the decoder
  reports no descriptor.  There is no failure value: ``no operation raises a fatal error'',
  and an empty entry is ``skipped, not treated as malformed input''.

  What is done to the pool for one resolved descriptor is the argument \<open>upload_texture\<close>
  (it gets the memory, the page, the mode, the index and the decoded record): neither the
  spec nor the header gives the byte-level rules for the name and the destination
  addresses.  \<open>tex\<close> is the content of the local descriptor record before the decoder is
  called.
\<close>

fun upload_entries ::
  "(memory \<Rightarrow> addr \<Rightarrow> s32 \<Rightarrow> s32 \<Rightarrow> u8 list \<Rightarrow> TexturePool \<Rightarrow> TexturePool) \<Rightarrow>
   memory \<Rightarrow> u8 list \<Rightarrow> addr \<Rightarrow> s32 \<Rightarrow> addr \<Rightarrow> u32 \<Rightarrow> s32 list \<Rightarrow> TexturePool \<Rightarrow> TexturePool" where
  "upload_entries upload_texture mem tex tpage mode memory_base s7_ptr [] p = p"
| "upload_entries upload_texture mem tex tpage mode memory_base s7_ptr (tex_idx # rest) p =
     (case try_copy_texture_description mem tex tex_idx memory_base tpage s7_ptr of
        (tex', True) \<Rightarrow>
          upload_entries upload_texture mem tex tpage mode memory_base s7_ptr rest
            (upload_texture mem tpage mode tex_idx tex' p)
      | (tex', False) \<Rightarrow>
          upload_entries upload_texture mem tex tpage mode memory_base s7_ptr rest p)"

text \<open>
  Modelled from the spec: \<^verbatim>\<open>TexturePool::handle_upload_now\<close> (simulate_upload), whose body
  is missing.  The indices a mode selects from a page of \<open>n\<close> textures are the argument
  \<open>entries mode n\<close> (one index in the single-descriptor mode, every index below \<open>n\<close> in
  the page mode): the spec names the two modes without their integer encoding.
\<close>

definition handle_upload_now ::
  "(s32 \<Rightarrow> s32 \<Rightarrow> s32 list) \<Rightarrow>
   (memory \<Rightarrow> addr \<Rightarrow> s32 \<Rightarrow> s32 \<Rightarrow> u8 list \<Rightarrow> TexturePool \<Rightarrow> TexturePool) \<Rightarrow>
   memory \<Rightarrow> u8 list \<Rightarrow> TexturePool \<Rightarrow> addr \<Rightarrow> s32 \<Rightarrow> addr \<Rightarrow> u32 \<Rightarrow> TexturePool" where
  "handle_upload_now entries upload_texture mem tex p tpage mode memory_base s7_ptr =
     upload_entries upload_texture mem tex tpage mode memory_base s7_ptr
       (entries mode (page_length mem tpage)) p"

text \<open>
  For the examples: a page mode that selects every index below the texture count, and an
  upload step that binds the slot whose address is the first byte of the descriptor to a
  texture that is not loaded yet.
\<close>

definition example_entries :: "s32 \<Rightarrow> s32 \<Rightarrow> s32 list" where
  "example_entries mode n = map of_nat [0..<nat (sint n)]"

definition example_upload_texture ::
  "memory \<Rightarrow> addr \<Rightarrow> s32 \<Rightarrow> s32 \<Rightarrow> u8 list \<Rightarrow> TexturePool \<Rightarrow> TexturePool" where
  "example_upload_texture mem tpage mode tex_idx tex p =
     p\<lparr>m_textures := (m_textures p)
         (ucast (tex ! 0) :=
            \<lparr>gpu_texture = m_placeholder_texture_id p, source = Some ''not-loaded''\<rparr>)\<rparr>"

text \<open>
  \<open>example_memory\<close> with a texture count: 2 for a page of the two entries above, 1 for a
  page that consists of the empty entry 0 alone.
\<close>

definition example_page :: "u8 \<Rightarrow> memory" where
  "example_page n = example_memory(12 := n)"

subsection \<open>Unloading a texture and refreshing its links\<close>

text \<open>
  The header declares \<^verbatim>\<open>unload_texture\<close>, \<^verbatim>\<open>refresh_links\<close> and \<^verbatim>\<open>lookup_mt4hh\<close> without
  bodies; their definitions are not among the sources.  The definitions of this subsection
  follow the specification of the pool, sentence by sentence.
\<close>

text \<open>
  Modelled from the spec: the handle a texture resolves to (the body of \<^verbatim>\<open>refresh_links\<close>
  is missing).  ``The new canonical handle is the handle of instance[0] if any instance
  remains, else the global placeholder handle.''
\<close>

definition canonical_handle :: "TexturePool \<Rightarrow> GpuTexture \<Rightarrow> u64" where
  "canonical_handle p texture =
     (case gpu_textures texture of
        [] \<Rightarrow> m_placeholder_texture_id p
      | i # rest \<Rightarrow> gl i)"

text \<open>
  Modelled from the spec: \<^verbatim>\<open>TexturePool::refresh_links\<close> (relink), whose body is missing.
  ``Every slot and paired-slot address recorded on the identity is overwritten with this
  handle.''  Only the handle of a slot is written; its back-reference stays (``slot
  back-references are preserved (not cleared)'').  The paired slots are the entries of
  \<^verbatim>\<open>m_mt4hh_textures\<close> whose address is recorded in \<^verbatim>\<open>mt4hh_slots\<close>.
\<close>

definition refresh_links :: "TexturePool \<Rightarrow> GpuTexture \<Rightarrow> TexturePool" where
  "refresh_links p texture =
     (let tex_to_use = canonical_handle p texture
      in p\<lparr>m_textures :=
              fold (\<lambda>a ts. ts(a := (ts a)\<lparr>gpu_texture := tex_to_use\<rparr>))
                (slots texture) (m_textures p),
            m_mt4hh_textures :=
              map (\<lambda>e. if slot e \<in> set (mt4hh_slots texture)
                       then e\<lparr>ref := (ref e)\<lparr>gpu_texture := tex_to_use\<rparr>\<rparr>
                       else e)
                (m_mt4hh_textures p)\<rparr>)"

text \<open>
  Modelled from the spec: the registry's detach (part of \<^verbatim>\<open>unload_texture\<close>, whose body is
  missing).  ``Detach removes the first instance matching the given handle.''
\<close>

fun erase_first :: "u64 \<Rightarrow> TextureData list \<Rightarrow> TextureData list" where
  "erase_first id' [] = []"
| "erase_first id' (i # rest) = (if gl i = id' then rest else i # erase_first id' rest)"

text \<open>
  Modelled from the spec: \<^verbatim>\<open>TexturePool::unload_texture\<close> (detach), whose body is missing.
  ``Registry detach; if the removal empties the instance list, the identity becomes a
  placeholder but is not removed from the registry.  No instance match on detach is a
  no-op, not an error.''  The relink follows every removal: ``Relink algorithm (used by
  detach and by any instance-list mutation)'', ``detaching the canonical instance promotes
  the next remaining instance (order-preserving) to canonical and triggers relink'', and
  when the list became empty ``relink every slot and paired-slot that references this
  identity so each resolves to the global placeholder handle''.  A name that is not
  registered has no instance to match and is a no-op as well.  The detach of the spec does
  not consult \<^verbatim>\<open>is_common\<close>.
\<close>

definition unload_texture :: "TexturePool \<Rightarrow> string \<Rightarrow> u64 \<Rightarrow> TexturePool" where
  "unload_texture p nm id' =
     (case m_loaded_textures p nm of
        None \<Rightarrow> p
      | Some tex \<Rightarrow>
          if id' \<notin> gl ` set (gpu_textures tex) then p
          else
            let remaining = erase_first id' (gpu_textures tex);
                tex' = tex\<lparr>gpu_textures := remaining,
                          is_placeholder := (if remaining = [] then True else is_placeholder tex)\<rparr>
            in refresh_links (p\<lparr>m_loaded_textures := (m_loaded_textures p)(nm \<mapsto> tex')\<rparr>) tex')"

text \<open>
  Modelled from the spec: \<^verbatim>\<open>TexturePool::lookup_mt4hh\<close> (lookup_paired), whose body is
  missing.  ``Resolved handle from the Paired-Format Side Table, or none.''
\<close>

definition lookup_mt4hh :: "TexturePool \<Rightarrow> u32 \<Rightarrow> u64 option" where
  "lookup_mt4hh p location =
     (case find (\<lambda>e. slot e = location) (m_mt4hh_textures p) of
        Some e \<Rightarrow> Some (gpu_texture (ref e))
      | None \<Rightarrow> None)"

text \<open>
  A pool with placeholder handle 1 in which the texture \<open>''eye''\<close> has the given
  instances, is bound to the VRAM slots 5 and 9 and to the paired slot 12 (each showing
  the handle \<open>shown\<close>), while slot 6 shows another texture.
\<close>

definition example_texture :: "TextureData list \<Rightarrow> GpuTexture" where
  "example_texture insts =
     \<lparr>page_name = ''page'', name = ''eye'', gpu_textures = insts, slots = [5, 9],
      mt4hh_slots = [12], combo_id = 3, w = 32, h = 32, is_placeholder = False,
      is_common = False\<rparr>"

definition example_pool :: "TextureData list \<Rightarrow> u64 \<Rightarrow> TexturePool" where
  "example_pool insts shown =
     \<lparr>m_textures = (\<lambda>location. TextureVRAMReference_default)
        (5 := \<lparr>gpu_texture = shown, source = Some ''eye''\<rparr>,
         9 := \<lparr>gpu_texture = shown, source = Some ''eye''\<rparr>,
         6 := \<lparr>gpu_texture = 77, source = Some ''sky''\<rparr>),
      m_mt4hh_textures = [\<lparr>ref = \<lparr>gpu_texture = shown, source = Some ''eye''\<rparr>, slot = 12\<rparr>],
      m_placeholder_texture_id = 1,
      m_loaded_textures = [''eye'' \<mapsto> example_texture insts]\<rparr>"

section \<open>Layout of the descriptor record\<close>

lemma sizeof_GoalTexture_eq: "sizeof_GoalTexture = 60"
  by (simp add: sizeof_GoalTexture_def sizeof_struct_def struct_align_def
      GoalTexture_members_def align_up_def)

lemma sizeof_GoalTexturePage_eq: "sizeof_GoalTexturePage = 124"
  by (simp add: sizeof_GoalTexturePage_def sizeof_struct_def struct_align_def
      GoalTexturePage_members_def align_up_def)

lemma GoalTexture_member_offsets:
  "member_offsets 0 GoalTexture_members =
     [(''w'', 0), (''h'', 2), (''num_mips'', 4), (''tex1_control'', 5), (''psm'', 6),
      (''mip_shift'', 7), (''clutpsm'', 8), (''dest'', 10), (''clut_dest'', 24),
      (''width'', 26), (''name_ptr'', 36), (''size'', 40), (''uv_dist'', 44),
      (''masks'', 48)]"
  by (simp add: GoalTexture_members_def align_up_def)

text \<open>
  Claim C8.  The texture descriptor record occupies exactly 60 bytes, with \<^verbatim>\<open>clutpsm\<close> at
  byte offset 8 and \<^verbatim>\<open>clut_dest\<close> at byte offset 24 (and every other member at the offset
  listed), and this is what the three \<^verbatim>\<open>static_assert\<close> declarations check.  The asserted
  conditions are closed: they mention no argument of the decoder, so they are settled once
  for the program and not at a call of \<^verbatim>\<open>try_copy_texture_description\<close>, which copies
  \<open>sizeof_GoalTexture\<close> bytes without any check of its own.
\<close>

theorem GoalTexture_layout:
  "GoalTexture_static_asserts \<and>
   sizeof_GoalTexture = 60 \<and>
   offsetof GoalTexture_members ''clutpsm'' = Some 8 \<and>
   offsetof GoalTexture_members ''clut_dest'' = Some 24 \<and>
   member_offsets 0 GoalTexture_members =
     [(''w'', 0), (''h'', 2), (''num_mips'', 4), (''tex1_control'', 5), (''psm'', 6),
      (''mip_shift'', 7), (''clutpsm'', 8), (''dest'', 10), (''clut_dest'', 24),
      (''width'', 26), (''name_ptr'', 36), (''size'', 40), (''uv_dist'', 44),
      (''masks'', 48)]"
  using sizeof_GoalTexture_eq
  by (simp add: GoalTexture_static_asserts_def offsetof_def GoalTexture_member_offsets)

section \<open>Mip segments\<close>

lemma uint_u8_bound: "uint (n :: u8) < 256"
  using uint_lt2p [of n] by simp

lemma sint_ucast_u8_s32: "sint (ucast (n :: u8) :: s32) = uint n"
proof -
  have "(- (2 ^ 31) :: int) \<le> 0" by simp
  also have "0 \<le> uint n" by simp
  finally have lo: "- (2 ^ 31) \<le> uint n" .
  have "uint n < 256" by (rule uint_u8_bound)
  also have "(256 :: int) < 2 ^ 31" by simp
  finally have hi: "uint n < 2 ^ 31" .
  from lo hi have "signed_take_bit 31 (uint n) = uint n"
    by (rule signed_take_bit_int_eq_self)
  then show ?thesis
    by (simp add: signed_ucast_eq)
qed

lemma sint_sub_small:
  fixes a b :: s32
  assumes "- 1000 \<le> sint a - sint b" and "sint a - sint b \<le> 1000"
  shows "sint (a - b) = sint a - sint b"
proof -
  have "signed_take_bit 31 (sint a - sint b) = sint a - sint b"
    using assms by (intro signed_take_bit_int_eq_self) simp_all
  then show ?thesis
    by (simp add: sint_word_ariths)
qed

text \<open>
  Claim C10.  For a texture descriptor with \<open>num_mips \<ge> 1\<close> and a mip index with
  \<open>0 \<le> mip < num_mips\<close>, \<^verbatim>\<open>segment_of_mip(mip)\<close> is at least 0, at most 2 and strictly
  less than \<open>num_mips\<close>.
\<close>

theorem segment_of_mip_in_range:
  assumes "1 \<le> uint (gt_num_mips tex)"
    and "0 \<le> sint mip"
    and "sint mip < uint (gt_num_mips tex)"
  shows "0 \<le> sint (segment_of_mip tex mip) \<and>
         sint (segment_of_mip tex mip) \<le> 2 \<and>
         sint (segment_of_mip tex mip) < uint (gt_num_mips tex)"
proof (cases "uint (gt_num_mips tex) \<le> 2")
  case True
  let ?n = "ucast (gt_num_mips tex) :: s32"
  have n: "sint ?n = uint (gt_num_mips tex)"
    by (rule sint_ucast_u8_s32)
  have s1: "sint (?n - mip) = sint ?n - sint mip"
    using assms True n by (intro sint_sub_small) simp_all
  have s2: "sint (?n - mip - 1) = sint (?n - mip) - 1"
    using assms True n s1 sint_sub_small [of "?n - mip" 1] by simp
  show ?thesis
    using True assms n s1 s2 by (simp add: segment_of_mip_def)
next
  case False
  have n: "sint (ucast (gt_num_mips tex) :: s32) = uint (gt_num_mips tex)"
    by (rule sint_ucast_u8_s32)
  have b: "uint (gt_num_mips tex) < 256"
    by (rule uint_u8_bound)
  have s: "sint (2 - mip) = 2 - sint mip"
    using assms b sint_sub_small [of 2 mip] by simp
  show ?thesis
    using False assms n s by (simp add: segment_of_mip_def smax32_def)
qed

theorem segment_of_mip_in_range_witness:
  "1 \<le> uint (gt_num_mips (texture_with_mips 2)) \<and> 0 \<le> sint (1 :: s32) \<and>
   sint (1 :: s32) < uint (gt_num_mips (texture_with_mips 2)) \<and>
   segment_of_mip (texture_with_mips 2) 1 = 0 \<and>
   0 \<le> sint (segment_of_mip (texture_with_mips 2) 1) \<and>
   sint (segment_of_mip (texture_with_mips 2) 1) \<le> 2 \<and>
   sint (segment_of_mip (texture_with_mips 2) 1) < uint (gt_num_mips (texture_with_mips 2))"
  using segment_of_mip_in_range [of "texture_with_mips 2" 1]
  by (simp add: texture_with_mips_def segment_of_mip_def)

section \<open>Decoding a page entry\<close>

lemma length_read_bytes: "length (read_bytes mem a n) = n"
  by (simp add: read_bytes_def)

lemma nth_read_bytes: "i < n \<Longrightarrow> read_bytes mem a n ! i = mem (a + of_nat i)"
  by (simp add: read_bytes_def)

lemma try_copy_sentinel:
  "texture_ptr mem tpage idx = s7_ptr \<Longrightarrow>
   try_copy_texture_description mem dest idx memory_base tpage s7_ptr = (dest, False)"
  by (simp add: try_copy_texture_description_def)

lemma try_copy_present:
  "texture_ptr mem tpage idx \<noteq> s7_ptr \<Longrightarrow>
   try_copy_texture_description mem dest idx memory_base tpage s7_ptr =
     (read_bytes mem (memory_base + ucast (texture_ptr mem tpage idx)) 60, True)"
  by (simp add: try_copy_texture_description_def sizeof_GoalTexture_eq)

lemma offsetof_length: "offsetof GoalTexturePage_members ''length'' = Some 12"
  by (simp add: offsetof_def GoalTexturePage_members_def align_up_def)

lemma upload_entries_fold:
  "upload_entries upload_texture mem tex tpage mode memory_base s7_ptr idxs p =
     fold (\<lambda>i. upload_texture mem tpage mode i
                 (read_bytes mem (memory_base + ucast (texture_ptr mem tpage i)) 60))
       (filter (\<lambda>i. texture_ptr mem tpage i \<noteq> s7_ptr) idxs) p"
  by (induction idxs arbitrary: p) (simp_all add: try_copy_sentinel try_copy_present)

lemma upload_entries_sentinel:
  "\<forall>i \<in> set idxs. texture_ptr mem tpage i = s7_ptr \<Longrightarrow>
   upload_entries upload_texture mem tex tpage mode memory_base s7_ptr idxs p = p"
  by (induction idxs arbitrary: p) (simp_all add: try_copy_sentinel)

text \<open>
  Claim C9.  If the 4-byte pointer stored at the index's position in the page's pointer
  array equals the empty sentinel, decoding that entry returns false and leaves the output
  record unmodified; otherwise it copies exactly the 60 bytes found at that pointer from
  the memory base and returns true.  The upload skips sentinel entries and does not treat
  them as malformed input: \<^verbatim>\<open>handle_upload_now\<close> returns the pool that results from
  uploading, in page order, exactly the descriptors of the entries whose pointer is not
  the sentinel, whatever is done per descriptor, and returns the pool as it was when every
  selected entry is the sentinel; it has no failure result.
\<close>

theorem try_copy_texture_description_sentinel_skipped:
  "(texture_ptr mem tpage idx = s7_ptr \<longrightarrow>
      try_copy_texture_description mem dest idx memory_base tpage s7_ptr = (dest, False)) \<and>
   (texture_ptr mem tpage idx \<noteq> s7_ptr \<longrightarrow>
      (\<exists>rec. try_copy_texture_description mem dest idx memory_base tpage s7_ptr = (rec, True) \<and>
         length rec = 60 \<and>
         (\<forall>i<60. rec ! i = mem (memory_base + ucast (texture_ptr mem tpage idx) + of_nat i)))) \<and>
   handle_upload_now entries upload_texture mem tex p tpage mode memory_base s7_ptr =
     fold (\<lambda>i. upload_texture mem tpage mode i
                 (read_bytes mem (memory_base + ucast (texture_ptr mem tpage i)) 60))
       (filter (\<lambda>i. texture_ptr mem tpage i \<noteq> s7_ptr) (entries mode (page_length mem tpage)))
       p \<and>
   ((\<forall>i \<in> set (entries mode (page_length mem tpage)). texture_ptr mem tpage i = s7_ptr) \<longrightarrow>
      handle_upload_now entries upload_texture mem tex p tpage mode memory_base s7_ptr = p)"
  by (simp add: try_copy_sentinel try_copy_present length_read_bytes nth_read_bytes
      handle_upload_now_def upload_entries_fold upload_entries_sentinel)

lemma example_ptr0: "texture_ptr example_memory 0 0 = 7"
  by (simp add: texture_ptr_def example_memory_def load_u32_def sizeof_GoalTexturePage_eq)

lemma example_ptr1: "texture_ptr example_memory 0 1 = 16"
  by (simp add: texture_ptr_def example_memory_def load_u32_def sizeof_GoalTexturePage_eq)

lemma example_page_length: "page_length (example_page n) 0 = ucast n"
  by (simp add: page_length_def example_page_def example_memory_def load_u32_def)

lemma example_entries_2: "example_entries mode 2 = [0, 1]"
  by (simp add: example_entries_def upt_rec)

lemma example_entries_1: "example_entries mode 1 = [0]"
  by (simp add: example_entries_def)

lemma example_page_ptr0: "texture_ptr (example_page n) 0 0 = 7"
  by (simp add: texture_ptr_def example_page_def example_memory_def load_u32_def
      sizeof_GoalTexturePage_eq)

lemma example_page_ptr1: "texture_ptr (example_page n) 0 1 = 16"
  by (simp add: texture_ptr_def example_page_def example_memory_def load_u32_def
      sizeof_GoalTexturePage_eq)

lemma example_page_byte: "example_page n 272 = 42"
  by (simp add: example_page_def example_memory_def)

theorem try_copy_texture_description_sentinel_skipped_witness:
  "texture_ptr example_memory 0 0 = 7 \<and>
   try_copy_texture_description example_memory [1, 2] 0 256 0 7 = ([1, 2], False) \<and>
   texture_ptr example_memory 0 1 \<noteq> 7 \<and>
   (\<exists>rec. try_copy_texture_description example_memory [1, 2] 1 256 0 7 = (rec, True) \<and>
      length rec = 60 \<and> rec ! 0 = 42) \<and>
   example_entries 0 (page_length (example_page 2) 0) = [0, 1] \<and>
   handle_upload_now example_entries example_upload_texture (example_page 2) [1, 2]
       TexturePool_default 0 0 256 7 =
     example_upload_texture (example_page 2) 0 0 1 (read_bytes (example_page 2) 272 60)
       TexturePool_default \<and>
   lookup (handle_upload_now example_entries example_upload_texture (example_page 2) [1, 2]
       TexturePool_default 0 0 256 7) 42 = Some 0 \<and>
   example_entries 0 (page_length (example_page 1) 0) = [0] \<and>
   handle_upload_now example_entries example_upload_texture (example_page 1) [1, 2]
       TexturePool_default 0 0 256 7 = TexturePool_default"
proof -
  note a = try_copy_texture_description_sentinel_skipped
             [of example_memory 0 0 7 "[1, 2]" 256 example_entries example_upload_texture
                 "[1, 2]" TexturePool_default 0]
  note b = try_copy_texture_description_sentinel_skipped
             [of example_memory 0 1 7 "[1, 2]" 256 example_entries example_upload_texture
                 "[1, 2]" TexturePool_default 0]
  note c = try_copy_texture_description_sentinel_skipped
             [of "example_page 2" 0 0 7 "[1, 2]" 256 example_entries example_upload_texture
                 "[1, 2]" TexturePool_default 0]
  note d = try_copy_texture_description_sentinel_skipped
             [of "example_page 1" 0 0 7 "[1, 2]" 256 example_entries example_upload_texture
                 "[1, 2]" TexturePool_default 0]
  have m: "example_memory 272 = 42"
    by (simp add: example_memory_def)
  from b obtain rec where
    r: "try_copy_texture_description example_memory [1, 2] 1 256 0 7 = (rec, True)"
       "length rec = 60"
       "\<forall>i<60. rec ! i = example_memory (256 + ucast (texture_ptr example_memory 0 1) + of_nat i)"
    by (auto simp: example_ptr1)
  from r(3) have "rec ! 0 = 42"
    by (simp add: example_ptr1 m)
  with a r(1,2) have dec:
    "texture_ptr example_memory 0 0 = 7 \<and>
     try_copy_texture_description example_memory [1, 2] 0 256 0 7 = ([1, 2], False) \<and>
     texture_ptr example_memory 0 1 \<noteq> 7 \<and>
     (\<exists>rec. try_copy_texture_description example_memory [1, 2] 1 256 0 7 = (rec, True) \<and>
        length rec = 60 \<and> rec ! 0 = 42)"
    by (simp add: example_ptr0 example_ptr1)
  have e2: "example_entries 0 (page_length (example_page 2) 0) = [0, 1]"
    and e1: "example_entries 0 (page_length (example_page 1) 0) = [0]"
    by (simp_all add: example_page_length example_entries_2 example_entries_1)
  from c have up2:
    "handle_upload_now example_entries example_upload_texture (example_page 2) [1, 2]
       TexturePool_default 0 0 256 7 =
     example_upload_texture (example_page 2) 0 0 1 (read_bytes (example_page 2) 272 60)
       TexturePool_default"
    by (simp add: e2 example_page_ptr0 example_page_ptr1)
  have l: "lookup (example_upload_texture (example_page 2) 0 0 1
             (read_bytes (example_page 2) 272 60) TexturePool_default) 42 = Some 0"
    by (simp add: example_upload_texture_def lookup_def nth_read_bytes example_page_byte
        TexturePool_default_def)
  from d have up1:
    "handle_upload_now example_entries example_upload_texture (example_page 1) [1, 2]
       TexturePool_default 0 0 256 7 = TexturePool_default"
    by (simp add: e1 example_page_ptr0)
  from dec e2 up2 l e1 up1 show ?thesis
    by simp
qed

section \<open>Lookup by VRAM address\<close>

text \<open>
  Claim C4.  For every address of the VRAM table, \<^verbatim>\<open>lookup\<close> returns an absent result
  exactly when the slot has never been written, that is when its back-reference is still
  none, and returns the resolved handle stored in the slot otherwise; on a freshly
  constructed pool \<^verbatim>\<open>lookup\<close> returns absent for every address.
\<close>

theorem lookup_absent_iff_unwritten:
  "unat location < VRAM_SLOTS \<Longrightarrow>
     (lookup p location = None \<longleftrightarrow> lookup_gpu_texture p location = None) \<and>
     (lookup_gpu_texture p location \<noteq> None \<longrightarrow>
        lookup p location = Some (gpu_texture (m_textures p location))) \<and>
     lookup TexturePool_default location = None"
  by (auto simp: lookup_def lookup_gpu_texture_def TexturePool_default_def
      TextureVRAMReference_default_def Let_def split: option.splits)

theorem lookup_absent_iff_unwritten_witness:
  "unat (5 :: u32) < VRAM_SLOTS \<and>
   lookup_gpu_texture example_written_pool 5 = Some ''a'' \<and>
   lookup example_written_pool 5 = Some 17 \<and>
   lookup_gpu_texture example_written_pool 6 = None \<and>
   lookup example_written_pool 6 = None \<and>
   lookup TexturePool_default 5 = None"
proof -
  have r5: "unat (5 :: u32) < VRAM_SLOTS" and r6: "unat (6 :: u32) < VRAM_SLOTS"
    by (simp_all add: VRAM_SLOTS_def)
  have s5: "lookup_gpu_texture example_written_pool 5 = Some ''a''"
    and s6: "lookup_gpu_texture example_written_pool 6 = None"
    and g5: "gpu_texture (m_textures example_written_pool 5) = 17"
    by (simp_all add: lookup_gpu_texture_def example_written_pool_def
        TexturePool_default_def TextureVRAMReference_default_def)
  show ?thesis
    using lookup_absent_iff_unwritten [OF r5, of example_written_pool]
      lookup_absent_iff_unwritten [OF r6, of example_written_pool] r5 s5 s6 g5
    by simp
qed

section \<open>Unloading\<close>

lemma fold_set_handle:
  "fold (\<lambda>a ts. ts(a := (ts a)\<lparr>gpu_texture := hnd\<rparr>)) as f =
     (\<lambda>a. if a \<in> set as then (f a)\<lparr>gpu_texture := hnd\<rparr> else f a)"
  by (induction as arbitrary: f) (auto simp: fun_eq_iff)

lemma m_textures_refresh_links:
  "m_textures (refresh_links p t) a =
     (if a \<in> set (slots t) then (m_textures p a)\<lparr>gpu_texture := canonical_handle p t\<rparr>
      else m_textures p a)"
  by (simp add: refresh_links_def Let_def fold_set_handle)

lemma m_mt4hh_refresh_links:
  "m_mt4hh_textures (refresh_links p t) =
     map (\<lambda>e. if slot e \<in> set (mt4hh_slots t)
              then e\<lparr>ref := (ref e)\<lparr>gpu_texture := canonical_handle p t\<rparr>\<rparr> else e)
       (m_mt4hh_textures p)"
  by (simp add: refresh_links_def Let_def)

lemma other_refresh_links:
  "m_loaded_textures (refresh_links p t) = m_loaded_textures p"
  "m_placeholder_texture_id (refresh_links p t) = m_placeholder_texture_id p"
  by (simp_all add: refresh_links_def Let_def)

lemma canonical_handle_upd [simp]:
  "canonical_handle (p\<lparr>m_loaded_textures := r\<rparr>) t = canonical_handle p t"
  by (simp add: canonical_handle_def split: list.splits)

lemma find_slot_map:
  assumes "\<And>e. slot (g e) = slot e"
  shows "find (\<lambda>e. slot e = a) (map g es) = map_option g (find (\<lambda>e. slot e = a) es)"
  using assms by (induction es) auto

lemma find_slot_Some: "find (\<lambda>e. slot e = a) es = Some e \<Longrightarrow> slot e = a"
  by (induction es) (auto split: if_splits)

lemma lookup_mt4hh_refresh_links:
  "lookup_mt4hh (refresh_links p t) a =
     (if a \<in> set (mt4hh_slots t)
      then map_option (\<lambda>x. canonical_handle p t) (lookup_mt4hh p a)
      else lookup_mt4hh p a)"
proof -
  let ?g = "\<lambda>e. if slot e \<in> set (mt4hh_slots t)
              then e\<lparr>ref := (ref e)\<lparr>gpu_texture := canonical_handle p t\<rparr>\<rparr> else e"
  have g: "\<And>e. slot (?g e) = slot e" by simp
  show ?thesis
    unfolding lookup_mt4hh_def m_mt4hh_refresh_links find_slot_map [of ?g, OF g]
    by (auto split: option.splits dest: find_slot_Some)
qed

text \<open>What an unload that matches an instance does.\<close>

lemma unload_texture_match:
  assumes "m_loaded_textures p nm = Some t" and "id' \<in> gl ` set (gpu_textures t)"
  shows "unload_texture p nm id' =
     refresh_links
       (p\<lparr>m_loaded_textures := (m_loaded_textures p)
            (nm \<mapsto> t\<lparr>gpu_textures := erase_first id' (gpu_textures t),
                      is_placeholder := (if erase_first id' (gpu_textures t) = [] then True
                                         else is_placeholder t)\<rparr>)\<rparr>)
       (t\<lparr>gpu_textures := erase_first id' (gpu_textures t),
          is_placeholder := (if erase_first id' (gpu_textures t) = [] then True
                             else is_placeholder t)\<rparr>)"
  using assms by (simp add: unload_texture_def Let_def)

lemma unload_texture_slot:
  assumes "m_loaded_textures p nm = Some t" and "id' \<in> gl ` set (gpu_textures t)"
  shows "m_textures (unload_texture p nm id') a =
     (if a \<in> set (slots t)
      then (m_textures p a)\<lparr>gpu_texture :=
             (case erase_first id' (gpu_textures t) of
                [] \<Rightarrow> m_placeholder_texture_id p | i # rest \<Rightarrow> gl i)\<rparr>
      else m_textures p a)"
  by (simp add: unload_texture_match [OF assms] m_textures_refresh_links canonical_handle_def
      split: list.splits)

lemma unload_texture_source:
  "source (m_textures (unload_texture p nm id') a) = source (m_textures p a)"
proof (cases "m_loaded_textures p nm")
  case None
  then show ?thesis by (simp add: unload_texture_def)
next
  case (Some t)
  show ?thesis
  proof (cases "id' \<in> gl ` set (gpu_textures t)")
    case True
    show ?thesis by (simp add: unload_texture_slot [OF Some True])
  next
    case False
    with Some show ?thesis by (simp add: unload_texture_def)
  qed
qed

lemma unload_texture_registry:
  assumes "m_loaded_textures p nm = Some t" and "id' \<in> gl ` set (gpu_textures t)"
  shows "m_loaded_textures (unload_texture p nm id') =
     (m_loaded_textures p)
       (nm \<mapsto> t\<lparr>gpu_textures := erase_first id' (gpu_textures t),
                 is_placeholder := (if erase_first id' (gpu_textures t) = [] then True
                                    else is_placeholder t)\<rparr>)"
  by (simp add: unload_texture_match [OF assms] other_refresh_links)

lemma unload_texture_placeholder_id:
  "m_placeholder_texture_id (unload_texture p nm id') = m_placeholder_texture_id p"
  by (simp add: unload_texture_def Let_def other_refresh_links split: option.splits)

lemma unload_texture_mt4hh:
  assumes "m_loaded_textures p nm = Some t" and "id' \<in> gl ` set (gpu_textures t)"
  shows "lookup_mt4hh (unload_texture p nm id') a =
     (if a \<in> set (mt4hh_slots t)
      then map_option (\<lambda>x. case erase_first id' (gpu_textures t) of
                [] \<Rightarrow> m_placeholder_texture_id p | i # rest \<Rightarrow> gl i) (lookup_mt4hh p a)
      else lookup_mt4hh p a)"
proof -
  have l: "\<And>q r. lookup_mt4hh (q\<lparr>m_loaded_textures := r\<rparr>) a = lookup_mt4hh q a"
    by (simp add: lookup_mt4hh_def)
  show ?thesis
    by (simp add: unload_texture_match [OF assms] lookup_mt4hh_refresh_links l
        canonical_handle_def split: list.splits)
qed

text \<open>
  Claim C3.  For an identity with exactly one loaded instance, unloading that instance by
  its handle makes every slot and every paired slot recorded on the identity resolve to the
  global placeholder handle, leaves the back-reference of every slot (and of every
  side-table entry) as it was, and leaves the identity in the registry under its name, now
  without instances and marked as a placeholder.
\<close>

theorem unload_last_instance_relinks_placeholder:
  assumes "m_loaded_textures p nm = Some t" and "gpu_textures t = [i]"
  shows "(\<forall>a \<in> set (slots t).
            gpu_texture (m_textures (unload_texture p nm (gl i)) a) = get_placeholder_texture p \<and>
            (lookup_gpu_texture p a \<noteq> None \<longrightarrow>
               lookup (unload_texture p nm (gl i)) a = Some (get_placeholder_texture p))) \<and>
         (\<forall>a \<in> set (mt4hh_slots t).
            lookup_mt4hh p a \<noteq> None \<longrightarrow>
              lookup_mt4hh (unload_texture p nm (gl i)) a = Some (get_placeholder_texture p)) \<and>
         (\<forall>a. lookup_gpu_texture (unload_texture p nm (gl i)) a = lookup_gpu_texture p a) \<and>
         map (\<lambda>e. (slot e, source (ref e))) (m_mt4hh_textures (unload_texture p nm (gl i))) =
           map (\<lambda>e. (slot e, source (ref e))) (m_mt4hh_textures p) \<and>
         m_loaded_textures (unload_texture p nm (gl i)) nm =
           Some (t\<lparr>gpu_textures := [], is_placeholder := True\<rparr>) \<and>
         get_placeholder_texture (unload_texture p nm (gl i)) = get_placeholder_texture p"
proof -
  have m: "gl i \<in> gl ` set (gpu_textures t)"
    using assms(2) by simp
  have e: "erase_first (gl i) (gpu_textures t) = []"
    using assms(2) by simp
  note slot = unload_texture_slot [OF assms(1) m, unfolded e, simplified]
  have 1: "\<forall>a \<in> set (slots t).
      gpu_texture (m_textures (unload_texture p nm (gl i)) a) = get_placeholder_texture p \<and>
      (lookup_gpu_texture p a \<noteq> None \<longrightarrow>
         lookup (unload_texture p nm (gl i)) a = Some (get_placeholder_texture p))"
    by (auto simp: slot lookup_def lookup_gpu_texture_def get_placeholder_texture_def)
  have 2: "\<forall>a \<in> set (mt4hh_slots t).
      lookup_mt4hh p a \<noteq> None \<longrightarrow>
        lookup_mt4hh (unload_texture p nm (gl i)) a = Some (get_placeholder_texture p)"
    by (auto simp: unload_texture_mt4hh [OF assms(1) m] e get_placeholder_texture_def)
  have 3: "\<forall>a. lookup_gpu_texture (unload_texture p nm (gl i)) a = lookup_gpu_texture p a"
    by (simp add: lookup_gpu_texture_def unload_texture_source)
  have 4: "map (\<lambda>e. (slot e, source (ref e))) (m_mt4hh_textures (unload_texture p nm (gl i))) =
           map (\<lambda>e. (slot e, source (ref e))) (m_mt4hh_textures p)"
    by (simp add: unload_texture_match [OF assms(1) m] m_mt4hh_refresh_links)
  have 5: "m_loaded_textures (unload_texture p nm (gl i)) nm =
           Some (t\<lparr>gpu_textures := [], is_placeholder := True\<rparr>)"
    by (simp add: unload_texture_registry [OF assms(1) m] e)
  have 6: "get_placeholder_texture (unload_texture p nm (gl i)) = get_placeholder_texture p"
    by (simp add: get_placeholder_texture_def unload_texture_placeholder_id)
  from 1 2 3 4 5 6 show ?thesis by blast
qed

theorem unload_last_instance_relinks_placeholder_witness:
  "m_loaded_textures (example_pool [\<lparr>gl = 40, data = 4096\<rparr>] 40) ''eye'' =
     Some (example_texture [\<lparr>gl = 40, data = 4096\<rparr>]) \<and>
   gpu_textures (example_texture [\<lparr>gl = 40, data = 4096\<rparr>]) = [\<lparr>gl = 40, data = 4096\<rparr>] \<and>
   lookup (example_pool [\<lparr>gl = 40, data = 4096\<rparr>] 40) 5 = Some 40 \<and>
   lookup (unload_texture (example_pool [\<lparr>gl = 40, data = 4096\<rparr>] 40) ''eye'' 40) 5 = Some 1 \<and>
   lookup (unload_texture (example_pool [\<lparr>gl = 40, data = 4096\<rparr>] 40) ''eye'' 40) 9 = Some 1 \<and>
   lookup_mt4hh (example_pool [\<lparr>gl = 40, data = 4096\<rparr>] 40) 12 = Some 40 \<and>
   lookup_mt4hh (unload_texture (example_pool [\<lparr>gl = 40, data = 4096\<rparr>] 40) ''eye'' 40) 12 =
     Some 1 \<and>
   lookup_gpu_texture (unload_texture (example_pool [\<lparr>gl = 40, data = 4096\<rparr>] 40) ''eye'' 40) 5 =
     Some ''eye'' \<and>
   map_option gpu_textures (m_loaded_textures
     (unload_texture (example_pool [\<lparr>gl = 40, data = 4096\<rparr>] 40) ''eye'' 40) ''eye'') = Some []"
proof -
  let ?i = "\<lparr>gl = 40, data = 4096\<rparr>"
  let ?p = "example_pool [?i] 40"
  have r: "m_loaded_textures ?p ''eye'' = Some (example_texture [?i])"
    by (simp add: example_pool_def)
  have g: "gpu_textures (example_texture [?i]) = [?i]"
    by (simp add: example_texture_def)
  have s: "slots (example_texture [?i]) = [5, 9]" "mt4hh_slots (example_texture [?i]) = [12]"
    by (simp_all add: example_texture_def)
  have b: "lookup_gpu_texture ?p 5 = Some ''eye''"
    "lookup_gpu_texture ?p 9 = Some ''eye''"
    "lookup ?p 5 = Some 40"
    "lookup_mt4hh ?p 12 = Some 40"
    "get_placeholder_texture ?p = 1"
    by (simp_all add: lookup_gpu_texture_def lookup_def lookup_mt4hh_def example_pool_def
        get_placeholder_texture_def)
  show ?thesis
    using unload_last_instance_relinks_placeholder [OF r g] r g
    by (simp add: s b)
qed

lemma unload_texture_mt4hh_list:
  assumes "m_loaded_textures p nm = Some t" and "id' \<in> gl ` set (gpu_textures t)"
  shows "m_mt4hh_textures (unload_texture p nm id') =
     map (\<lambda>e. if slot e \<in> set (mt4hh_slots t)
              then e\<lparr>ref := (ref e)\<lparr>gpu_texture :=
                     (case erase_first id' (gpu_textures t) of
                        [] \<Rightarrow> m_placeholder_texture_id p | i # rest \<Rightarrow> gl i)\<rparr>\<rparr>
              else e)
       (m_mt4hh_textures p)"
  by (simp add: unload_texture_match [OF assms] m_mt4hh_refresh_links canonical_handle_def
      split: list.splits)

text \<open>Two unloads, the second of which removes the last instance.\<close>

lemma unload_twice:
  assumes reg: "m_loaded_textures p nm = Some t"
    and m1: "x \<in> gl ` set (gpu_textures t)"
    and m2: "y \<in> gl ` set (erase_first x (gpu_textures t))"
    and e: "erase_first y (erase_first x (gpu_textures t)) = []"
  shows "unload_texture (unload_texture p nm x) nm y =
     p\<lparr>m_textures := (\<lambda>a. if a \<in> set (slots t)
                           then (m_textures p a)\<lparr>gpu_texture := m_placeholder_texture_id p\<rparr>
                           else m_textures p a),
       m_mt4hh_textures :=
         map (\<lambda>e. if slot e \<in> set (mt4hh_slots t)
                  then e\<lparr>ref := (ref e)\<lparr>gpu_texture := m_placeholder_texture_id p\<rparr>\<rparr>
                  else e)
           (m_mt4hh_textures p),
       m_loaded_textures :=
         (m_loaded_textures p)(nm \<mapsto> t\<lparr>gpu_textures := [], is_placeholder := True\<rparr>)\<rparr>"
proof -
  let ?p1 = "unload_texture p nm x"
  let ?t1 = "t\<lparr>gpu_textures := erase_first x (gpu_textures t),
               is_placeholder := (if erase_first x (gpu_textures t) = [] then True
                                  else is_placeholder t)\<rparr>"
  have reg1: "m_loaded_textures ?p1 nm = Some ?t1"
    by (simp add: unload_texture_registry [OF reg m1])
  have m2': "y \<in> gl ` set (gpu_textures ?t1)"
    using m2 by simp
  have e': "erase_first y (gpu_textures ?t1) = []"
    using e by simp
  have tex: "m_textures (unload_texture ?p1 nm y) =
      (\<lambda>a. if a \<in> set (slots t)
            then (m_textures p a)\<lparr>gpu_texture := m_placeholder_texture_id p\<rparr>
            else m_textures p a)"
    by (rule ext)
      (simp add: unload_texture_slot [OF reg1 m2'] e unload_texture_slot [OF reg m1]
        unload_texture_placeholder_id)
  have side: "m_mt4hh_textures (unload_texture ?p1 nm y) =
      map (\<lambda>e. if slot e \<in> set (mt4hh_slots t)
               then e\<lparr>ref := (ref e)\<lparr>gpu_texture := m_placeholder_texture_id p\<rparr>\<rparr>
               else e)
        (m_mt4hh_textures p)"
    by (simp add: unload_texture_mt4hh_list [OF reg1 m2'] e
        unload_texture_mt4hh_list [OF reg m1] unload_texture_placeholder_id comp_def)
  have regs: "m_loaded_textures (unload_texture ?p1 nm y) =
      (m_loaded_textures p)(nm \<mapsto> t\<lparr>gpu_textures := [], is_placeholder := True\<rparr>)"
    by (simp add: unload_texture_registry [OF reg1 m2'] e unload_texture_registry [OF reg m1])
  have ph: "m_placeholder_texture_id (unload_texture ?p1 nm y) = m_placeholder_texture_id p"
    by (simp add: unload_texture_placeholder_id)
  show ?thesis
    by (rule TexturePool.equality) (simp_all add: tex side regs ph)
qed


text \<open>
  Claim C7.  For an identity that holds the two instances registered by two levels,
  unloading either one leaves one loaded instance, and every slot recorded on the identity
  resolves to the handle of a remaining instance (to the second instance once the first,
  canonical one is gone; still to the first instance when the second is unloaded).  Only
  after both unloads do the slots resolve to the placeholder handle, and the pool after
  both unloads is the same whichever instance was unloaded first.
\<close>

theorem unload_order_independent:
  assumes "m_loaded_textures p nm = Some t" and "gpu_textures t = [i1, i2]"
  shows "(\<exists>ta. m_loaded_textures (unload_texture p nm (gl i1)) nm = Some ta \<and>
            gpu_textures ta = [i2]) \<and>
         (\<forall>a \<in> set (slots t).
            gpu_texture (m_textures (unload_texture p nm (gl i1)) a) = gl i2 \<and>
            (lookup_gpu_texture p a \<noteq> None \<longrightarrow>
               lookup (unload_texture p nm (gl i1)) a = Some (gl i2))) \<and>
         (\<exists>tb. m_loaded_textures (unload_texture p nm (gl i2)) nm = Some tb \<and>
            gpu_textures tb = [if gl i1 = gl i2 then i2 else i1]) \<and>
         (\<forall>a \<in> set (slots t).
            gpu_texture (m_textures (unload_texture p nm (gl i2)) a) = gl i1 \<and>
            (lookup_gpu_texture p a \<noteq> None \<longrightarrow>
               lookup (unload_texture p nm (gl i2)) a = Some (gl i1))) \<and>
         unload_texture (unload_texture p nm (gl i1)) nm (gl i2) =
           unload_texture (unload_texture p nm (gl i2)) nm (gl i1) \<and>
         (\<exists>tf. m_loaded_textures (unload_texture (unload_texture p nm (gl i1)) nm (gl i2)) nm =
                 Some tf \<and> gpu_textures tf = [] \<and> is_placeholder tf) \<and>
         (\<forall>a \<in> set (slots t).
            gpu_texture (m_textures (unload_texture (unload_texture p nm (gl i1)) nm (gl i2)) a) =
              get_placeholder_texture p \<and>
            (lookup_gpu_texture p a \<noteq> None \<longrightarrow>
               lookup (unload_texture (unload_texture p nm (gl i1)) nm (gl i2)) a =
                 Some (get_placeholder_texture p)))"
proof -
  note reg = assms(1)
  have m1: "gl i1 \<in> gl ` set (gpu_textures t)" and m2: "gl i2 \<in> gl ` set (gpu_textures t)"
    using assms(2) by simp_all
  have e1: "erase_first (gl i1) (gpu_textures t) = [i2]"
    using assms(2) by simp
  define r where "r = (if gl i1 = gl i2 then i2 else i1)"
  have e2: "erase_first (gl i2) (gpu_textures t) = [r]"
    using assms(2) by (simp add: r_def)
  have r: "r = i1 \<or> r = i2"
    by (simp add: r_def)
  have a1: "\<exists>ta. m_loaded_textures (unload_texture p nm (gl i1)) nm = Some ta \<and>
              gpu_textures ta = [i2]"
    by (simp add: unload_texture_registry [OF reg m1] e1)
  have a2: "\<forall>a \<in> set (slots t).
      gpu_texture (m_textures (unload_texture p nm (gl i1)) a) = gl i2 \<and>
      (lookup_gpu_texture p a \<noteq> None \<longrightarrow>
         lookup (unload_texture p nm (gl i1)) a = Some (gl i2))"
    by (auto simp: unload_texture_slot [OF reg m1] e1 lookup_def lookup_gpu_texture_def)
  have glr: "gl r = gl i1"
    by (simp add: r_def)
  have b1: "\<exists>tb. m_loaded_textures (unload_texture p nm (gl i2)) nm = Some tb \<and>
      gpu_textures tb = [if gl i1 = gl i2 then i2 else i1]"
    by (simp add: unload_texture_registry [OF reg m2] e2 r_def)
  have b2: "\<forall>a \<in> set (slots t).
      gpu_texture (m_textures (unload_texture p nm (gl i2)) a) = gl i1 \<and>
      (lookup_gpu_texture p a \<noteq> None \<longrightarrow>
         lookup (unload_texture p nm (gl i2)) a = Some (gl i1))"
    by (auto simp: unload_texture_slot [OF reg m2] e2 glr lookup_def lookup_gpu_texture_def)
  note f12 = unload_twice [OF reg m1, of "gl i2", unfolded e1, simplified]
  have er: "erase_first (gl i1) [r] = []"
    using assms(2) by (auto simp: r_def)
  have mr: "gl i1 \<in> gl ` set (erase_first (gl i2) (gpu_textures t))"
    unfolding e2 by (auto simp: r_def)
  note f21 = unload_twice [OF reg m2 mr, unfolded e2, OF er]
  have c: "unload_texture (unload_texture p nm (gl i1)) nm (gl i2) =
           unload_texture (unload_texture p nm (gl i2)) nm (gl i1)"
    by (simp only: f12 f21)
  have d1: "\<exists>tf. m_loaded_textures (unload_texture (unload_texture p nm (gl i1)) nm (gl i2)) nm =
              Some tf \<and> gpu_textures tf = [] \<and> is_placeholder tf"
    by (simp add: f12)
  have d2: "\<forall>a \<in> set (slots t).
      gpu_texture (m_textures (unload_texture (unload_texture p nm (gl i1)) nm (gl i2)) a) =
        get_placeholder_texture p \<and>
      (lookup_gpu_texture p a \<noteq> None \<longrightarrow>
         lookup (unload_texture (unload_texture p nm (gl i1)) nm (gl i2)) a =
           Some (get_placeholder_texture p))"
    by (auto simp: f12 lookup_def lookup_gpu_texture_def get_placeholder_texture_def)
  from a1 a2 b1 b2 c d1 d2 show ?thesis by blast
qed

theorem unload_order_independent_witness:
  "m_loaded_textures
     (example_pool [\<lparr>gl = 40, data = 4096\<rparr>, \<lparr>gl = 41, data = 8192\<rparr>] 40) ''eye'' =
     Some (example_texture [\<lparr>gl = 40, data = 4096\<rparr>, \<lparr>gl = 41, data = 8192\<rparr>]) \<and>
   gpu_textures (example_texture [\<lparr>gl = 40, data = 4096\<rparr>, \<lparr>gl = 41, data = 8192\<rparr>]) =
     [\<lparr>gl = 40, data = 4096\<rparr>, \<lparr>gl = 41, data = 8192\<rparr>] \<and>
   lookup (example_pool [\<lparr>gl = 40, data = 4096\<rparr>, \<lparr>gl = 41, data = 8192\<rparr>] 40) 5 = Some 40 \<and>
   lookup (unload_texture
     (example_pool [\<lparr>gl = 40, data = 4096\<rparr>, \<lparr>gl = 41, data = 8192\<rparr>] 40) ''eye'' 40) 5 =
     Some 41 \<and>
   lookup (unload_texture
     (example_pool [\<lparr>gl = 40, data = 4096\<rparr>, \<lparr>gl = 41, data = 8192\<rparr>] 40) ''eye'' 41) 5 =
     Some 40 \<and>
   lookup (unload_texture (unload_texture
     (example_pool [\<lparr>gl = 40, data = 4096\<rparr>, \<lparr>gl = 41, data = 8192\<rparr>] 40) ''eye'' 40)
       ''eye'' 41) 5 = Some 1 \<and>
   unload_texture (unload_texture
     (example_pool [\<lparr>gl = 40, data = 4096\<rparr>, \<lparr>gl = 41, data = 8192\<rparr>] 40) ''eye'' 40)
       ''eye'' 41 =
   unload_texture (unload_texture
     (example_pool [\<lparr>gl = 40, data = 4096\<rparr>, \<lparr>gl = 41, data = 8192\<rparr>] 40) ''eye'' 41)
       ''eye'' 40"
proof -
  let ?i1 = "\<lparr>gl = 40, data = 4096\<rparr>"
  let ?i2 = "\<lparr>gl = 41, data = 8192\<rparr>"
  let ?p = "example_pool [?i1, ?i2] 40"
  have r: "m_loaded_textures ?p ''eye'' = Some (example_texture [?i1, ?i2])"
    by (simp add: example_pool_def)
  have g: "gpu_textures (example_texture [?i1, ?i2]) = [?i1, ?i2]"
    by (simp add: example_texture_def)
  have s: "slots (example_texture [?i1, ?i2]) = [5, 9]"
    by (simp add: example_texture_def)
  have b: "lookup_gpu_texture ?p 5 = Some ''eye''"
    "lookup_gpu_texture ?p 9 = Some ''eye''"
    "lookup ?p 5 = Some 40"
    "get_placeholder_texture ?p = 1"
    by (simp_all add: lookup_gpu_texture_def lookup_def example_pool_def
        get_placeholder_texture_def)
  show ?thesis
    using unload_order_independent [OF r g] r g
    by (auto simp: s b)
qed

end
